theory Spec2Isabelle
  imports Main "HOL-Library.Sublist"
begin

section \<open>Strings\<close>

text \<open>
  JavaScript strings are modelled as \<^typ>\<open>string\<close>, one \<^typ>\<open>char\<close> per code unit; the
  model covers the code units below 256. \<open>String.prototype.trim\<close> removes the white space
  and line terminator code units from both ends; below 256 these are TAB, LF, VT, FF, CR,
  SPACE and NO-BREAK SPACE.
\<close>

definition isWhiteSpace :: "char \<Rightarrow> bool" where
  "isWhiteSpace c \<longleftrightarrow>
     c = CHR 0x09 \<or> c = CHR 0x0A \<or> c = CHR 0x0B \<or> c = CHR 0x0C \<or> c = CHR 0x0D \<or>
     c = CHR 0x20 \<or> c = CHR 0xA0"

definition trim :: "string \<Rightarrow> string" where
  "trim s = rev (dropWhile isWhiteSpace (rev (dropWhile isWhiteSpace s)))"

text \<open>\<open>Array.prototype.join\<close> on an array of strings.\<close>

fun join :: "string \<Rightarrow> string list \<Rightarrow> string" where
  "join sep [] = []"
| "join sep [x] = x"
| "join sep (x # y # ys) = x @ sep @ join sep (y # ys)"

section \<open>Client: statement normalization (client.ts)\<close>

text \<open>
  The loop of \<open>removeTrailingSemi\<close>:
  \<^verbatim>\<open>for (let i = lastNonSemiIdx; i > 0; i--) { if (query[i - 1] !== ';') { lastNonSemiIdx = i; break } }\<close>
  The first argument is the query, the second the loop variable \<open>i\<close>, the third the current
  value of \<open>lastNonSemiIdx\<close>. The loop starts at \<open>i = query.length\<close>, so \<open>query[i - 1]\<close> is
  always in range.
\<close>

fun lastNonSemiLoop :: "string \<Rightarrow> nat \<Rightarrow> nat \<Rightarrow> nat" where
  "lastNonSemiLoop query 0 lastNonSemiIdx = lastNonSemiIdx"
| "lastNonSemiLoop query (Suc i) lastNonSemiIdx =
     (if query ! i \<noteq> CHR '';'' then Suc i else lastNonSemiLoop query i lastNonSemiIdx)"

definition removeTrailingSemi :: "string \<Rightarrow> string" where
  "removeTrailingSemi query =
     (let lastNonSemiIdx = lastNonSemiLoop query (length query) (length query)
      in if lastNonSemiIdx \<noteq> length query then take lastNonSemiIdx query else query)"

definition formatQuery :: "string \<Rightarrow> string \<Rightarrow> string" where
  "formatQuery query format =
     removeTrailingSemi (trim query) @ [CHR '' '', CHR 0x0A] @ ''FORMAT '' @ format"

section \<open>Client: parameters and results (client.ts)\<close>

text \<open>
  Values of settings, bound parameters and rows. A key that an object holds with the value
  \<open>undefined\<close> is a key of the map, with \<open>JUndefined\<close>: an object spread copies it.
\<close>

datatype jsvalue = JNumber int | JString string | JBoolean bool | JUndefined

type_synonym ClickHouseSettings = "string \<rightharpoonup> jsvalue"

text \<open>A JavaScript \<open>Error\<close> with its message.\<close>

datatype jserror = Error string

text \<open>
  A request body is a string or a stream (of the bytes it yields). A response body handed to
  the caller is the incoming message itself or the incoming message piped through gunzip.
\<close>

datatype body = BodyText string | BodyStream string

datatype readable = Raw string | Gunzip string

record BaseQueryParams =
  clickhouse_settings :: "ClickHouseSettings option"
  query_params :: "(string \<rightharpoonup> jsvalue) option"
  abort_signal :: "nat option"
  query_id :: "string option"
  session_id :: "string option"

record ExecParams = BaseQueryParams +
  query :: string

record QueryParams = ExecParams +
  format :: "string option"

datatype InsertValues =
    ValuesArray "jsvalue list"
  | ValuesStream string
  | ValuesInputJSON "jsvalue list"
  | ValuesObjectEachRow "(string \<times> jsvalue) list"

datatype InsertColumns = ColumnsArray "string list" | ColumnsExcept "string list"

record InsertParams = BaseQueryParams +
  table :: string
  insert_values :: InsertValues
  format :: "string option"
  columns :: "InsertColumns option"

text \<open>
  The argument of \<open>Connection.insert\<close>: \<open>{query, values, ...base}\<close>. (\<open>values\<close> is a
  keyword of Isabelle: the field of the insert parameters is \<open>insert_values\<close>, the one of the
  connection's parameters \<open>conn_values\<close>.)
\<close>

record ConnInsertParams = ExecParams +
  conn_values :: body

record ConnBaseResult =
  query_id :: string
  summary :: "string option"

record ConnExecResult = ConnBaseResult +
  stream :: readable

record InsertResult = ConnBaseResult +
  executed :: bool

text \<open>The value \<open>makeResultSet(stream, format, query_id)\<close> builds.\<close>

datatype ResultSet = MakeResultSet readable string string

text \<open>
  The collaborators of the client. A call on the connection is asynchronous; the model gives
  the settled outcome of the awaited promise, \<open>Inl\<close> a rejection.
\<close>

record Connection =
  conn_query :: "ExecParams \<Rightarrow> jserror + ConnExecResult"
  conn_exec :: "ExecParams \<Rightarrow> jserror + ConnExecResult"
  conn_insert :: "ConnInsertParams \<Rightarrow> jserror + ConnBaseResult"
  conn_ping :: "jserror + bool"

record ValuesEncoder =
  validateInsertValues :: "InsertValues \<Rightarrow> string \<Rightarrow> jserror option"
  encodeValues :: "InsertValues \<Rightarrow> string \<Rightarrow> body"

record ClickHouseClient =
  clientClickHouseSettings :: ClickHouseSettings
  sessionId :: "string option"
  connection :: Connection
  valuesEncoder :: ValuesEncoder
  closeStream :: "readable \<Rightarrow> jserror option"

text \<open>The calls made on the connection, in order: the network activity of the client.\<close>

datatype conn_call =
    CallQuery ExecParams
  | CallExec ExecParams
  | CallInsert ConnInsertParams
  | CallPing

section \<open>Client: operations (client.ts)\<close>

definition withClientQueryParams ::
  "ClickHouseClient \<Rightarrow> 'a BaseQueryParams_scheme \<Rightarrow> BaseQueryParams" where
  "withClientQueryParams c params =
     \<lparr> clickhouse_settings =
         Some (clientClickHouseSettings c ++
               (case clickhouse_settings params of None \<Rightarrow> Map.empty | Some m \<Rightarrow> m)),
       query_params = query_params params,
       abort_signal = abort_signal params,
       query_id = BaseQueryParams.query_id params,
       session_id = sessionId c \<rparr>"

text \<open>The object \<open>{query, ...base}\<close>.\<close>

definition withQuery :: "string \<Rightarrow> BaseQueryParams \<Rightarrow> ExecParams" where
  "withQuery q base = BaseQueryParams.extend base (ExecParams.fields q)"

text \<open>The object \<open>{query, values, ...base}\<close>.\<close>

definition withQueryValues :: "string \<Rightarrow> body \<Rightarrow> BaseQueryParams \<Rightarrow> ConnInsertParams" where
  "withQueryValues q v base = ExecParams.extend (withQuery q base) (ConnInsertParams.fields v)"

definition client_query ::
  "ClickHouseClient \<Rightarrow> QueryParams \<Rightarrow> conn_call list \<Rightarrow> (jserror + ResultSet) \<times> conn_call list" where
  "client_query c params log =
     (let format = (case QueryParams.format params of None \<Rightarrow> ''JSON'' | Some f \<Rightarrow> f);
          query = formatQuery (query params) format;
          arg = withQuery query (withClientQueryParams c params)
      in (case conn_query (connection c) arg of
            Inl e \<Rightarrow> Inl e
          | Inr r \<Rightarrow> Inr (MakeResultSet (stream r) format (ConnBaseResult.query_id r)),
          log @ [CallQuery arg]))"

definition client_exec ::
  "ClickHouseClient \<Rightarrow> 'a ExecParams_scheme \<Rightarrow> conn_call list \<Rightarrow>
     (jserror + ConnExecResult) \<times> conn_call list" where
  "client_exec c params log =
     (let query = removeTrailingSemi (trim (query params));
          arg = withQuery query (withClientQueryParams c params)
      in (conn_exec (connection c) arg, log @ [CallExec arg]))"

definition client_command ::
  "ClickHouseClient \<Rightarrow> 'a ExecParams_scheme \<Rightarrow> conn_call list \<Rightarrow>
     (jserror + ConnBaseResult) \<times> conn_call list" where
  "client_command c params log =
     (case client_exec c params log of
        (Inl e, log') \<Rightarrow> (Inl e, log')
      | (Inr r, log') \<Rightarrow>
          (case closeStream c (stream r) of
             Some e \<Rightarrow> (Inl e, log')
           | None \<Rightarrow>
               (Inr \<lparr> query_id = ConnBaseResult.query_id r, summary = summary r \<rparr>, log')))"

definition getInsertQuery :: "InsertParams \<Rightarrow> string \<Rightarrow> string" where
  "getInsertQuery params format' =
     (let columnsPart =
        (case columns params of
           None \<Rightarrow> []
         | Some (ColumnsArray cs) \<Rightarrow>
             if length cs > 0 then '' ('' @ join '', '' cs @ '')'' else []
         | Some (ColumnsExcept ex) \<Rightarrow>
             if length ex > 0 then '' (* EXCEPT ('' @ join '', '' ex @ ''))'' else [])
      in ''INSERT INTO '' @ trim (table params) @ columnsPart @ '' FORMAT '' @ format')"

definition client_insert ::
  "ClickHouseClient \<Rightarrow> InsertParams \<Rightarrow> conn_call list \<Rightarrow>
     (jserror + InsertResult) \<times> conn_call list" where
  "client_insert c params log =
     (if (case insert_values params of ValuesArray vs \<Rightarrow> length vs = 0 | _ \<Rightarrow> False)
      then (Inr \<lparr> query_id = [], summary = None, executed = False \<rparr>, log)
      else
        let format =
              (case InsertParams.format params of
                 None \<Rightarrow> ''JSONCompactEachRow''
               | Some f \<Rightarrow> if f = [] then ''JSONCompactEachRow'' else f)
        in case validateInsertValues (valuesEncoder c) (insert_values params) format of
             Some e \<Rightarrow> (Inl e, log)
           | None \<Rightarrow>
               let query = getInsertQuery params format;
                   arg = withQueryValues query
                           (encodeValues (valuesEncoder c) (insert_values params) format)
                           (withClientQueryParams c params)
               in (case conn_insert (connection c) arg of
                     Inl e \<Rightarrow> Inl e
                   | Inr r \<Rightarrow> Inr (ConnBaseResult.extend r (InsertResult.fields True)),
                   log @ [CallInsert arg]))"

definition client_ping ::
  "ClickHouseClient \<Rightarrow> conn_call list \<Rightarrow> (jserror + bool) \<times> conn_call list" where
  "client_ping c log = (conn_ping (connection c), log @ [CallPing])"

section \<open>HTTP adapter: requests and responses (base_http_adapter.ts)\<close>

datatype http_method = GET | POST

text \<open>
  \<open>toSearchParams\<close> and \<open>transformUrl\<close> are imported from modules outside the sources at
  hand; a URL is kept as the arguments they are called with: for \<open>toSearchParams\<close> the
  database, the settings, the bound parameters, the query (inserts only), the session id and
  the query id; for \<open>transformUrl\<close> the base URL, the path name and the search parameters.
\<close>

datatype SearchParams =
  ToSearchParams string "ClickHouseSettings option" "(string \<rightharpoonup> jsvalue) option"
    "string option" "string option" string

datatype Url = TransformUrl string string "SearchParams option"

record Compression =
  decompress_response :: bool
  compress_request :: bool

record ConnectionParams =
  url :: string
  request_timeout :: nat
  compression :: Compression
  database :: string

text \<open>
  An optional boolean of \<open>RequestParams\<close> is only tested for truth: absent reads as false.
  The field \<open>method\<close> is \<open>request_method\<close> here (\<open>method\<close> is a keyword of Isabelle).
\<close>

record RequestParams =
  request_method :: http_method
  url :: Url
  body :: "body option"
  abort_signal :: "nat option"
  decompress_response :: bool
  compress_request :: bool

text \<open>
  Of the incoming message: the status code, the \<open>content-encoding\<close> header and the bytes of
  the body.
\<close>

record IncomingMessage =
  statusCode :: "nat option"
  content_encoding :: "string option"
  message_body :: string

text \<open>
  The adapter: its configuration and default headers, and what the modules outside the
  sources at hand give it: \<open>parseError\<close> (from \<open>../../error\<close>) and the identifier that
  \<open>uuid.v4()\<close> returns when it is called.
\<close>

record BaseHttpAdapter =
  config :: ConnectionParams
  headers :: "string \<rightharpoonup> string"
  parseError :: "string \<Rightarrow> jserror"
  uuid_v4 :: string

definition isSuccessfulResponse :: "nat option \<Rightarrow> bool" where
  "isSuccessfulResponse statusCode' =
     (case statusCode' of None \<Rightarrow> False | Some n \<Rightarrow> n \<noteq> 0 \<and> 200 \<le> n \<and> n < 300)"

definition withHttpSettings :: "ClickHouseSettings option \<Rightarrow> bool \<Rightarrow> ClickHouseSettings" where
  "withHttpSettings settings compress =
     (if compress then [''enable_http_compression'' \<mapsto> JNumber 1] else Map.empty) ++
     (case settings of None \<Rightarrow> Map.empty | Some m \<Rightarrow> m)"

definition decompressResponse :: "IncomingMessage \<Rightarrow> jserror + readable" where
  "decompressResponse response =
     (case content_encoding response of
        Some encoding \<Rightarrow>
          if encoding = ''gzip'' then Inr (Gunzip (message_body response))
          else Inl (Error (''Unexpected encoding: '' @ encoding))
      | None \<Rightarrow> Inr (Raw (message_body response)))"

definition getHeaders :: "BaseHttpAdapter \<Rightarrow> RequestParams \<Rightarrow> (string \<rightharpoonup> string)" where
  "getHeaders a params =
     headers a ++
     (if RequestParams.decompress_response params
      then [''Accept-Encoding'' \<mapsto> ''gzip''] else Map.empty) ++
     (if RequestParams.compress_request params
      then [''Content-Encoding'' \<mapsto> ''gzip''] else Map.empty)"

definition getQueryId :: "BaseHttpAdapter \<Rightarrow> 'a BaseQueryParams_scheme \<Rightarrow> string" where
  "getQueryId a params =
     (case BaseQueryParams.query_id params of
        None \<Rightarrow> uuid_v4 a
      | Some q \<Rightarrow> if q = [] then uuid_v4 a else q)"

section \<open>HTTP adapter: one exchange (base_http_adapter.ts, request)\<close>

text \<open>
  The promise that \<open>request\<close> returns. \<open>resolve\<close> and \<open>reject\<close> act on a pending promise
  only, as the language defines them.
\<close>

datatype 'a promise = Pending | Resolved 'a | Rejected jserror

text \<open>
  The state of one exchange: the promise; how often the promise changed its state; which
  listeners of the exchange are attached (\<open>on_abort\<close> is the listener on the abort signal,
  \<open>on_timeout\<close> the one on the socket, \<open>error_once\<close> counts the one-time empty \<open>error\<close>
  listeners); whether \<open>request.socket\<close> is set; whether the request was destroyed; the
  response bodies whose text \<open>onResponse\<close> is awaiting; the \<open>error\<close> events that found no
  listener.
\<close>

record Exchange =
  outcome :: "readable promise"
  settlements :: nat
  on_socket :: bool
  on_response :: bool
  on_error :: bool
  on_close :: bool
  on_abort :: bool
  on_timeout :: bool
  error_once :: nat
  socket :: bool
  destroyed :: bool
  awaiting_text :: "readable list"
  unhandled_errors :: "jserror list"

text \<open>
  What can happen to an exchange: the events of the request (\<open>socket\<close>, \<open>response\<close>, \<open>error\<close>,
  \<open>close\<close>), of the abort signal, of the socket (\<open>timeout\<close>), the end of the awaited
  \<open>getAsText\<close> with the text read, and the callback of the pipeline that sends the body.
\<close>

datatype event =
    EvSocket
  | EvResponse IncomingMessage
  | EvText string
  | EvError jserror
  | EvAbort
  | EvTimeout
  | EvClose
  | EvPipeline "jserror option"

definition settle :: "readable promise \<Rightarrow> Exchange \<Rightarrow> Exchange" where
  "settle v s =
     (if outcome s = Pending then s\<lparr>outcome := v, settlements := Suc (settlements s)\<rparr> else s)"

definition resolve :: "readable \<Rightarrow> Exchange \<Rightarrow> Exchange" where
  "resolve r = settle (Resolved r)"

definition reject :: "jserror \<Rightarrow> Exchange \<Rightarrow> Exchange" where
  "reject e = settle (Rejected e)"

text \<open>
  \<open>removeRequestListeners\<close>. Its last statement removes \<open>onAbort\<close> from the request, where it
  was never attached (it listens on the abort signal): \<open>on_abort\<close> is left as it is.
\<close>

definition removeRequestListeners :: "Exchange \<Rightarrow> Exchange" where
  "removeRequestListeners s =
     s\<lparr>on_timeout := (if socket s then False else on_timeout s),
       on_socket := False, on_response := False, on_error := False, on_close := False\<rparr>"

definition onError :: "jserror \<Rightarrow> Exchange \<Rightarrow> Exchange" where
  "onError err s = reject err (removeRequestListeners s)"

text \<open>
  \<open>onResponse\<close>. Its first statement hands the response to the logger and does not touch
  the exchange. On a status outside 200 to 299 it awaits the text of the body: the stream is
  queued, and the event \<open>EvText\<close> continues with \<open>reject(parseError(text))\<close>.
\<close>

definition onResponse :: "IncomingMessage \<Rightarrow> Exchange \<Rightarrow> Exchange" where
  "onResponse response s =
     (case decompressResponse response of
        Inl err \<Rightarrow> reject err s
      | Inr r \<Rightarrow>
          if isSuccessfulResponse (statusCode response) then resolve r s
          else s\<lparr>awaiting_text := awaiting_text s @ [r]\<rparr>)"

definition onAbort :: "Exchange \<Rightarrow> Exchange" where
  "onAbort s =
     reject (Error ''The request was aborted.'')
       ((removeRequestListeners s)\<lparr>error_once := Suc (error_once s)\<rparr>)"

definition onClose :: "Exchange \<Rightarrow> Exchange" where
  "onClose s = removeRequestListeners s"

definition onSocket :: "Exchange \<Rightarrow> Exchange" where
  "onSocket s = s\<lparr>on_timeout := True\<rparr>"

definition onTimeout :: "Exchange \<Rightarrow> Exchange" where
  "onTimeout s = reject (Error ''Timeout error'') ((removeRequestListeners s)\<lparr>destroyed := True\<rparr>)"

definition callback :: "jserror option \<Rightarrow> Exchange \<Rightarrow> Exchange" where
  "callback err s = (case err of None \<Rightarrow> s | Some e \<Rightarrow> reject e (removeRequestListeners s))"

text \<open>\<open>if (!params.body) return request.end()\<close>: no pipeline for an absent or empty body.\<close>

definition hasBody :: "RequestParams \<Rightarrow> bool" where
  "hasBody params =
     (case body params of None \<Rightarrow> False | Some (BodyText t) \<Rightarrow> t \<noteq> [] | Some (BodyStream b) \<Rightarrow> True)"

text \<open>The exchange when \<open>request\<close> has attached its listeners.\<close>

definition init :: "RequestParams \<Rightarrow> Exchange" where
  "init params =
     \<lparr> outcome = Pending, settlements = 0,
       on_socket = True, on_response = True, on_error = True, on_close = True,
       on_abort = (RequestParams.abort_signal params \<noteq> None),
       on_timeout = False, error_once = 0, socket = False, destroyed = False,
       awaiting_text = [], unhandled_errors = [] \<rparr>"

text \<open>
  One event. An emitter calls the listeners attached when the event is emitted; a one-time
  listener is detached before it runs; an \<open>error\<close> event without a listener is not handled.
\<close>

fun step :: "(string \<Rightarrow> jserror) \<Rightarrow> RequestParams \<Rightarrow> event \<Rightarrow> Exchange \<Rightarrow> Exchange" where
  "step pe params EvSocket s =
     (if on_socket s then onSocket (s\<lparr>socket := True\<rparr>) else s\<lparr>socket := True\<rparr>)"
| "step pe params (EvResponse response) s =
     (if on_response s then onResponse response s else s)"
| "step pe params (EvText t) s =
     (case awaiting_text s of
        [] \<Rightarrow> s
      | r # rs \<Rightarrow> reject (pe t) (s\<lparr>awaiting_text := rs\<rparr>))"
| "step pe params (EvError err) s =
     (let s1 = (if on_error s then onError err s else s);
          s2 = s1\<lparr>error_once := 0\<rparr>
      in if on_error s \<or> error_once s > 0 then s2
         else s2\<lparr>unhandled_errors := unhandled_errors s2 @ [err]\<rparr>)"
| "step pe params EvAbort s =
     (if on_abort s then onAbort (s\<lparr>on_abort := False\<rparr>) else s)"
| "step pe params EvTimeout s =
     (if on_timeout s then onTimeout (s\<lparr>on_timeout := False\<rparr>) else s)"
| "step pe params EvClose s =
     (if on_close s then onClose s else s)"
| "step pe params (EvPipeline err) s =
     (if hasBody params then callback err s else s)"

fun run :: "(string \<Rightarrow> jserror) \<Rightarrow> RequestParams \<Rightarrow> event list \<Rightarrow> Exchange \<Rightarrow> Exchange" where
  "run pe params [] s = s"
| "run pe params (e # es) s = run pe params es (step pe params e s)"

text \<open>\<open>request\<close>: the promise after the events of the exchange.\<close>

definition request :: "BaseHttpAdapter \<Rightarrow> RequestParams \<Rightarrow> event list \<Rightarrow> readable promise" where
  "request a params es = outcome (run (parseError a) params es (init params))"

section \<open>HTTP adapter: operations (base_http_adapter.ts)\<close>

definition ping_request :: "BaseHttpAdapter \<Rightarrow> RequestParams" where
  "ping_request a =
     \<lparr> request_method = GET,
       url = TransformUrl (ConnectionParams.url (config a)) ''/ping'' None,
       body = None, abort_signal = None,
       decompress_response = False, compress_request = False \<rparr>"

definition adapter_ping :: "BaseHttpAdapter \<Rightarrow> event list \<Rightarrow> bool promise" where
  "adapter_ping a es = map_promise (\<lambda>stream. True) (request a (ping_request a) es)"

definition query_request :: "BaseHttpAdapter \<Rightarrow> 'a ExecParams_scheme \<Rightarrow> RequestParams" where
  "query_request a params =
     (let query_id = getQueryId a params;
          clickhouse_settings =
            withHttpSettings (clickhouse_settings params)
              (Compression.decompress_response (compression (config a)));
          searchParams =
            ToSearchParams (database (config a)) (Some clickhouse_settings)
              (query_params params) None (session_id params) query_id
      in \<lparr> request_method = POST,
           url = TransformUrl (ConnectionParams.url (config a)) ''/'' (Some searchParams),
           body = Some (BodyText (query params)),
           abort_signal = BaseQueryParams.abort_signal params,
           decompress_response =
             (clickhouse_settings ''enable_http_compression'' = Some (JNumber 1)),
           compress_request = False \<rparr>)"

definition adapter_query ::
  "BaseHttpAdapter \<Rightarrow> 'a ExecParams_scheme \<Rightarrow> event list \<Rightarrow> ConnExecResult promise" where
  "adapter_query a params es =
     map_promise
       (\<lambda>stream. \<lparr> query_id = getQueryId a params, summary = None, stream = stream \<rparr>)
       (request a (query_request a params) es)"

definition exec_request :: "BaseHttpAdapter \<Rightarrow> 'a ExecParams_scheme \<Rightarrow> RequestParams" where
  "exec_request a params =
     (let query_id = getQueryId a params;
          searchParams =
            ToSearchParams (database (config a)) (clickhouse_settings params)
              (query_params params) None (session_id params) query_id
      in \<lparr> request_method = POST,
           url = TransformUrl (ConnectionParams.url (config a)) ''/'' (Some searchParams),
           body = Some (BodyText (query params)),
           abort_signal = BaseQueryParams.abort_signal params,
           decompress_response = False, compress_request = False \<rparr>)"

definition adapter_exec ::
  "BaseHttpAdapter \<Rightarrow> 'a ExecParams_scheme \<Rightarrow> event list \<Rightarrow> ConnExecResult promise" where
  "adapter_exec a params es =
     map_promise
       (\<lambda>stream. \<lparr> query_id = getQueryId a params, summary = None, stream = stream \<rparr>)
       (request a (exec_request a params) es)"

definition insert_request :: "BaseHttpAdapter \<Rightarrow> ConnInsertParams \<Rightarrow> RequestParams" where
  "insert_request a params =
     (let query_id = getQueryId a params;
          searchParams =
            ToSearchParams (database (config a)) (clickhouse_settings params)
              (query_params params) (Some (query params)) (session_id params) query_id
      in \<lparr> request_method = POST,
           url = TransformUrl (ConnectionParams.url (config a)) ''/'' (Some searchParams),
           body = Some (conn_values params),
           abort_signal = BaseQueryParams.abort_signal params,
           decompress_response = False,
           compress_request = Compression.compress_request (compression (config a)) \<rparr>)"

definition adapter_insert ::
  "BaseHttpAdapter \<Rightarrow> ConnInsertParams \<Rightarrow> event list \<Rightarrow> ConnBaseResult promise" where
  "adapter_insert a params es =
     map_promise
       (\<lambda>stream. \<lparr> query_id = getQueryId a params, summary = None \<rparr>)
       (request a (insert_request a params) es)"

section \<open>Observations and example values\<close>

text \<open>The per-call settings of a call on the client: an absent object spreads as no key.\<close>

definition perCallSettings :: "'a BaseQueryParams_scheme \<Rightarrow> ClickHouseSettings" where
  "perCallSettings params =
     (case clickhouse_settings params of None \<Rightarrow> Map.empty | Some m \<Rightarrow> m)"

text \<open>The settings and the session id that a call on the connection carries.\<close>

fun call_settings :: "conn_call \<Rightarrow> ClickHouseSettings option" where
  "call_settings (CallQuery p) = clickhouse_settings p"
| "call_settings (CallExec p) = clickhouse_settings p"
| "call_settings (CallInsert p) = clickhouse_settings p"
| "call_settings CallPing = None"

fun call_session_id :: "conn_call \<Rightarrow> string option" where
  "call_session_id (CallQuery p) = session_id p"
| "call_session_id (CallExec p) = session_id p"
| "call_session_id (CallInsert p) = session_id p"
| "call_session_id CallPing = None"

text \<open>
  The counter of an exchange agrees with its promise: no change of state while the promise is
  pending, one once it is settled.
\<close>

definition counted :: "Exchange \<Rightarrow> bool" where
  "counted s \<longleftrightarrow> settlements s = (if outcome s = Pending then 0 else 1)"

text \<open>
  While the promise is pending, the listener on the abort signal is attached exactly when a
  signal was given.
\<close>

definition abort_armed :: "RequestParams \<Rightarrow> Exchange \<Rightarrow> bool" where
  "abort_armed p s \<longleftrightarrow>
     outcome s \<noteq> Pending \<or> on_abort s = (RequestParams.abort_signal p \<noteq> None)"

text \<open>
  While the promise is pending and no \<open>close\<close> event has come, the listeners of the request
  are attached, and the idle timeout is armed once the socket is there.
\<close>

definition listening :: "Exchange \<Rightarrow> bool" where
  "listening s \<longleftrightarrow>
     outcome s \<noteq> Pending \<or>
     (on_socket s \<and> on_response s \<and> on_error s \<and> on_close s \<and> on_timeout s = socket s)"


text \<open>
  After an abort: \<open>onError\<close> and \<open>onAbort\<close> are detached and a one-time empty \<open>error\<close>
  listener is attached.
\<close>

definition swallowing :: "Exchange \<Rightarrow> bool" where
  "swallowing s \<longleftrightarrow> \<not> on_error s \<and> \<not> on_abort s \<and> 0 < error_once s"

fun isErrorEvent :: "event \<Rightarrow> bool" where
  "isErrorEvent (EvError e) = True"
| "isErrorEvent ev = False"

definition example_adapter :: BaseHttpAdapter where
  "example_adapter =
     \<lparr> config = \<lparr> ConnectionParams.url = ''http://localhost:8123'', request_timeout = 30000,
                  compression = \<lparr> Compression.decompress_response = True,
                                  Compression.compress_request = False \<rparr>,
                  database = ''default'' \<rparr>,
       headers = Map.empty,
       parseError = Error,
       uuid_v4 = ''6e7a1c52-0c0b-4c5e-9d57-2f1f0a8b3c44'' \<rparr>"

definition example_exec_params :: "string option \<Rightarrow> ExecParams" where
  "example_exec_params qid =
     \<lparr> clickhouse_settings = None, query_params = None, BaseQueryParams.abort_signal = Some 0,
       BaseQueryParams.query_id = qid, session_id = None, query = ''SELECT 1'' \<rparr>"

definition example_conn_insert_params :: "string option \<Rightarrow> ConnInsertParams" where
  "example_conn_insert_params qid =
     \<lparr> clickhouse_settings = None, query_params = None, BaseQueryParams.abort_signal = None,
       BaseQueryParams.query_id = qid, session_id = None,
       query = ''INSERT INTO t FORMAT JSONEachRow'', conn_values = BodyText ''[1]'' \<rparr>"

definition example_client :: ClickHouseClient where
  "example_client =
     \<lparr> clientClickHouseSettings =
         [''max_result_rows'' \<mapsto> JNumber 10, ''wait_end_of_query'' \<mapsto> JNumber 1],
       sessionId = Some ''client-session'',
       connection =
         \<lparr> conn_query = (\<lambda>p. Inl (Error ''connect ECONNREFUSED'')),
           conn_exec = (\<lambda>p. Inl (Error ''connect ECONNREFUSED'')),
           conn_insert = (\<lambda>p. Inr \<lparr> query_id = ''id-1'', summary = None \<rparr>),
           conn_ping = Inl (Error ''connect ECONNREFUSED'') \<rparr>,
       valuesEncoder =
         \<lparr> validateInsertValues = (\<lambda>v f. None),
           encodeValues = (\<lambda>v f. BodyText ''[1]'') \<rparr>,
       closeStream = (\<lambda>s. None) \<rparr>"

definition example_response :: "nat \<Rightarrow> string option \<Rightarrow> IncomingMessage" where
  "example_response status encoding =
     \<lparr> statusCode = Some status, content_encoding = encoding, message_body = ''1'' \<rparr>"

definition example_insert_params :: "InsertColumns option \<Rightarrow> InsertParams" where
  "example_insert_params cols =
     \<lparr> clickhouse_settings = Some [''max_result_rows'' \<mapsto> JNumber 5],
       query_params = None, BaseQueryParams.abort_signal = None,
       BaseQueryParams.query_id = None, session_id = Some ''per-call'', table = ''t'',
       insert_values = ValuesArray [JNumber 1], InsertParams.format = None, columns = cols \<rparr>"

section \<open>Properties\<close>

subsection \<open>Statement normalization\<close>

lemma lastNonSemiLoop_all_semi:
  "i \<le> n \<Longrightarrow> lastNonSemiLoop (replicate n CHR '';'') i l = l"
  by (induction i) auto

lemma lastNonSemiLoop_run:
  "c \<noteq> CHR '';'' \<Longrightarrow> k \<le> n \<Longrightarrow>
   lastNonSemiLoop (xs @ c # replicate n CHR '';'') (Suc (length xs) + k) l = Suc (length xs)"
  by (induction k) (auto simp: nth_append)

text \<open>
  Where the statement holds a character other than \<open>;\<close>, the whole run of separators after
  the last such character is removed.
\<close>

lemma removeTrailingSemi_run:
  assumes "c \<noteq> CHR '';''"
  shows "removeTrailingSemi (xs @ c # replicate n CHR '';'') = xs @ [c]"
proof -
  have "lastNonSemiLoop (xs @ c # replicate n CHR '';'')
          (length (xs @ c # replicate n CHR '';'')) l = Suc (length xs)" for l
    using lastNonSemiLoop_run [OF assms, of n n xs l] by simp
  then show ?thesis
    by (simp add: removeTrailingSemi_def)
qed

text \<open>
  A statement made of separators only is returned unchanged, whatever its length: the loop
  never finds a character other than \<open>;\<close>, \<open>lastNonSemiIdx\<close> keeps its initial value
  \<open>query.length\<close>, and the final test returns the query as it is.
\<close>

lemma removeTrailingSemi_replicate_semi:
  "removeTrailingSemi (trim (replicate n CHR '';'')) = replicate n CHR '';''"
proof -
  have "dropWhile isWhiteSpace (replicate n CHR '';'') = replicate n CHR '';''"
    by (cases n) (simp_all add: isWhiteSpace_def)
  then have "trim (replicate n CHR '';'') = replicate n CHR '';''"
    by (simp add: trim_def)
  then show ?thesis
    by (simp add: removeTrailingSemi_def lastNonSemiLoop_all_semi)
qed

text \<open>
  C3 (the code at the failing input). The statement \<open>;;;\<close>, trimmed and normalized, is still
  \<open>;;;\<close>, not the empty string; and \<open>query\<close> sends it with its three separators.
\<close>

theorem removeTrailingSemi_only_semis:
  "removeTrailingSemi (trim '';;;'') = '';;;'' \<and>
   formatQuery '';;;'' ''JSON'' = '';;; '' @ [CHR 0x0A] @ ''FORMAT JSON''"
  by (simp add: removeTrailingSemi_def formatQuery_def trim_def isWhiteSpace_def)


lemma dropWhile_all: "list_all P xs \<Longrightarrow> dropWhile P (xs @ ys) = dropWhile P ys"
  by (induction xs) simp_all

lemma trim_spec:
  assumes ws1: "list_all isWhiteSpace ws1" and ws2: "list_all isWhiteSpace ws2"
    and t: "t = [] \<or> (\<not> isWhiteSpace (hd t) \<and> \<not> isWhiteSpace (last t))"
  shows "trim (ws1 @ t @ ws2) = t"
proof (cases "t = []")
  case True
  have empty: "dropWhile isWhiteSpace (ws1 @ ws2) = []"
    using ws1 ws2 by (simp add: list_all_iff)
  have "trim (ws1 @ ws2) = []"
    unfolding trim_def empty by simp
  with True show ?thesis by simp
next
  case False
  with t have h: "\<not> isWhiteSpace (hd t)" and l: "\<not> isWhiteSpace (last t)"
    by simp_all
  have front: "dropWhile isWhiteSpace (ws1 @ t @ ws2) = t @ ws2"
    using dropWhile_all [OF ws1, of "t @ ws2"] False h by (cases t) simp_all
  have "list_all isWhiteSpace (rev ws2)"
    using ws2 by (simp add: list_all_iff)
  then have "dropWhile isWhiteSpace (rev ws2 @ rev t) = dropWhile isWhiteSpace (rev t)"
    by (rule dropWhile_all)
  also have "\<dots> = rev t"
    using False l by (cases "rev t") (simp_all add: last_rev [symmetric] hd_rev)
  finally show ?thesis
    using front by (simp add: trim_def)
qed

lemma string_shape:
  "\<exists>ws1 t ws2. s = ws1 @ t @ ws2 \<and> list_all isWhiteSpace ws1 \<and> list_all isWhiteSpace ws2
     \<and> (t = [] \<or> (\<not> isWhiteSpace (hd t) \<and> \<not> isWhiteSpace (last t)))"
proof -
  let ?P = isWhiteSpace
  let ?rest = "dropWhile ?P s"
  let ?t = "rev (dropWhile ?P (rev ?rest))"
  let ?ws2 = "rev (takeWhile ?P (rev ?rest))"
  have split: "?rest = ?t @ ?ws2"
  proof -
    have "rev ?rest = takeWhile ?P (rev ?rest) @ dropWhile ?P (rev ?rest)"
      by simp
    then have "rev (rev ?rest) = rev (takeWhile ?P (rev ?rest) @ dropWhile ?P (rev ?rest))"
      by (rule arg_cong)
    then show ?thesis
      by (simp only: rev_rev_ident rev_append)
  qed
  have 1: "s = takeWhile ?P s @ ?t @ ?ws2"
    using split takeWhile_dropWhile_id [of ?P s] by simp
  have 2: "list_all ?P (takeWhile ?P s)" "list_all ?P ?ws2"
    by (auto simp: list_all_iff dest: set_takeWhileD)
  have 3: "?t = [] \<or> (\<not> ?P (hd ?t) \<and> \<not> ?P (last ?t))"
  proof (cases "?t = []")
    case True
    then show ?thesis by simp
  next
    case False
    then have ne: "dropWhile ?P (rev ?rest) \<noteq> []"
      by simp
    then have l: "\<not> ?P (last ?t)"
      by (simp add: last_rev hd_dropWhile)
    have "?rest \<noteq> []"
    proof
      assume e: "?rest = []"
      have "dropWhile ?P (rev ?rest) = dropWhile ?P (rev [])"
        by (simp only: e)
      with ne show False by simp
    qed
    then have "\<not> ?P (hd ?rest)"
      by (rule hd_dropWhile)
    moreover have "hd ?rest = hd ?t"
      using split False hd_append2 [of ?t ?ws2] by simp
    ultimately have "\<not> ?P (hd ?t)"
      by simp
    with l show ?thesis by simp
  qed
  from 1 2 3 show ?thesis by blast
qed

text \<open>
  Where the statement holds a character other than \<open>;\<close>, \<open>query\<close> sends the statement
  without the white space around it and without the separators after its last other
  character, followed by a space, a line feed, \<open>FORMAT\<close> and the requested format, \<open>JSON\<close>
  when none is given.
\<close>

lemma query_normalized_statement:
  assumes ws1: "list_all isWhiteSpace ws1" and ws2: "list_all isWhiteSpace ws2"
    and ch: "ch \<noteq> CHR '';''"
    and first: "\<not> isWhiteSpace (hd (core @ [ch]))"
    and final: "0 < n \<or> \<not> isWhiteSpace ch"
  shows "\<exists>arg.
      snd (client_query c (params\<lparr>query := ws1 @ (core @ ch # replicate n CHR '';'') @ ws2\<rparr>) log) =
        log @ [CallQuery arg]
      \<and> query arg =
          core @ [ch] @ '' '' @ [CHR 0x0A] @ ''FORMAT '' @
            (case QueryParams.format params of None \<Rightarrow> ''JSON'' | Some f \<Rightarrow> f)
      \<and> body (query_request a arg) = Some (BodyText (query arg))"
proof -
  let ?t = "core @ ch # replicate n CHR '';''"
  have semi: "\<not> isWhiteSpace CHR '';''"
    by (simp add: isWhiteSpace_def)
  have h: "hd ?t = hd (core @ [ch])"
    by (cases core) simp_all
  have l: "last ?t = (if n = 0 then ch else CHR '';'')"
    by (cases n) simp_all
  have "?t = [] \<or> (\<not> isWhiteSpace (hd ?t) \<and> \<not> isWhiteSpace (last ?t))"
    using first final semi h l by auto
  from trim_spec [OF ws1 ws2 this] removeTrailingSemi_run [OF ch, of core n]
  have "removeTrailingSemi (trim (ws1 @ ?t @ ws2)) = core @ [ch]"
    by simp
  then show ?thesis
    by (simp add: client_query_def Let_def withQuery_def BaseQueryParams.extend_def
        ExecParams.fields_def query_request_def formatQuery_def split: option.splits)
qed

text \<open>The body of every \<open>query\<close> ends with a line feed, \<open>FORMAT\<close> and the format.\<close>

lemma query_body_ends_with_format:
  "\<exists>arg. snd (client_query c params log) = log @ [CallQuery arg]
      \<and> body (query_request a arg) = Some (BodyText (query arg))
      \<and> suffix ([CHR 0x0A] @ ''FORMAT '' @
            (case QueryParams.format params of None \<Rightarrow> ''JSON'' | Some f \<Rightarrow> f)) (query arg)"
  by (auto simp: client_query_def Let_def withQuery_def BaseQueryParams.extend_def
      ExecParams.fields_def query_request_def formatQuery_def suffix_def split: option.splits)

text \<open>
  C7 (the code at the failing input). For the statement \<open>;;;\<close> the format directive is not
  appended to a stripped statement: \<open>query\<close> passes \<open>;;;\<close> with its three separators, then
  the directive, and the adapter sends this as the body of the request.
\<close>

theorem query_only_semis_not_stripped:
  "\<exists>arg. snd (client_query c (params\<lparr>query := '';;;'', QueryParams.format := None\<rparr>) log) =
        log @ [CallQuery arg]
      \<and> query arg = '';;; '' @ [CHR 0x0A] @ ''FORMAT JSON''
      \<and> body (query_request a arg) = Some (BodyText ('';;; '' @ [CHR 0x0A] @ ''FORMAT JSON''))"
  by (simp add: client_query_def Let_def withQuery_def BaseQueryParams.extend_def
      ExecParams.fields_def query_request_def formatQuery_def removeTrailingSemi_def trim_def
      isWhiteSpace_def)

subsection \<open>Inserts\<close>

text \<open>
  C5. An insert whose values are an array without elements makes no call on the connection
  (the calls are as before) and returns \<open>{executed: false, query_id: ''}\<close>.
\<close>

theorem insert_empty_array_no_call:
  "client_insert c (params\<lparr>insert_values := ValuesArray []\<rparr>) log =
     (Inr \<lparr> query_id = [], summary = None, executed = False \<rparr>, log)"
  by (simp add: client_insert_def)



text \<open>The statements of the three documented examples.\<close>

lemma getInsertQuery_examples:
  "getInsertQuery (example_insert_params (Some (ColumnsArray [''a'', ''b'']))) ''JSONEachRow''
     = ''INSERT INTO t (a, b) FORMAT JSONEachRow''"
  "getInsertQuery (example_insert_params (Some (ColumnsExcept [''a'', ''b'']))) ''JSONEachRow''
     = ''INSERT INTO t (* EXCEPT (a, b)) FORMAT JSONEachRow''"
  "getInsertQuery (example_insert_params None) ''JSONEachRow''
     = ''INSERT INTO t FORMAT JSONEachRow''"
  by (simp_all add: getInsertQuery_def example_insert_params_def trim_def isWhiteSpace_def)

subsection \<open>Settings and session of a call\<close>

text \<open>
  C9. Each of \<open>query\<close>, \<open>exec\<close> and \<open>command\<close> makes one call on the connection, \<open>insert\<close> at
  most one; every such call carries the client's settings overridden by the per-call
  settings, and the session id of the client, whatever session id the call was given. The
  override is key by key: a key of the per-call settings wins, any other key keeps the
  client's value.
\<close>

theorem client_settings_and_session:
  "(\<exists>call. snd (client_query c qp log) = log @ [call]
       \<and> call_settings call = Some (clientClickHouseSettings c ++ perCallSettings qp)
       \<and> call_session_id call = sessionId c)
   \<and> (\<exists>call. snd (client_exec c ep log) = log @ [call]
       \<and> call_settings call = Some (clientClickHouseSettings c ++ perCallSettings ep)
       \<and> call_session_id call = sessionId c)
   \<and> (\<exists>call. snd (client_command c ep log) = log @ [call]
       \<and> call_settings call = Some (clientClickHouseSettings c ++ perCallSettings ep)
       \<and> call_session_id call = sessionId c)
   \<and> (\<exists>calls. snd (client_insert c ip log) = log @ calls \<and> length calls \<le> 1
       \<and> list_all (\<lambda>call.
             call_settings call = Some (clientClickHouseSettings c ++ perCallSettings ip)
             \<and> call_session_id call = sessionId c) calls)
   \<and> (clientClickHouseSettings c ++ perCallSettings ip) k =
        (case perCallSettings ip k of Some v \<Rightarrow> Some v | None \<Rightarrow> clientClickHouseSettings c k)
   \<and> withClientQueryParams c (ip\<lparr>session_id := sid\<rparr>) = withClientQueryParams c ip"
  by (auto simp: client_query_def client_exec_def client_command_def client_insert_def Let_def
      withQuery_def withQueryValues_def withClientQueryParams_def perCallSettings_def
      BaseQueryParams.extend_def ExecParams.fields_def ExecParams.extend_def
      ConnInsertParams.fields_def map_add_def split: option.splits sum.splits)

theorem client_settings_and_session_witness:
  "\<exists>call. snd (client_insert example_client (example_insert_params None) []) = [call]
     \<and> call_session_id call = Some ''client-session''
     \<and> session_id (example_insert_params None) = Some ''per-call''
     \<and> (\<exists>m. call_settings call = Some m
           \<and> m ''max_result_rows'' = Some (JNumber 5)
           \<and> m ''wait_end_of_query'' = Some (JNumber 1))"
  using client_settings_and_session [of example_client _ "[]" _ "example_insert_params None"]
  by (simp add: client_insert_def example_client_def example_insert_params_def Let_def
      withQueryValues_def withQuery_def withClientQueryParams_def perCallSettings_def
      BaseQueryParams.extend_def ExecParams.fields_def ExecParams.extend_def
      ConnInsertParams.fields_def)

subsection \<open>One exchange: basic facts\<close>

lemmas exchange_defs =
  settle_def resolve_def reject_def removeRequestListeners_def onError_def onResponse_def
  onAbort_def onClose_def onSocket_def onTimeout_def callback_def

text \<open>No event changes a settled promise.\<close>

lemma step_settled:
  "outcome s \<noteq> Pending \<Longrightarrow>
   outcome (step pe p e s) = outcome s \<and> settlements (step pe p e s) = settlements s"
  by (cases e) (auto simp: exchange_defs Let_def split: sum.splits list.splits option.splits)

lemma run_settled:
  "outcome s \<noteq> Pending \<Longrightarrow>
   outcome (run pe p es s) = outcome s \<and> settlements (run pe p es s) = settlements s"
proof (induction es arbitrary: s)
  case Nil
  then show ?case by simp
next
  case (Cons e es)
  from step_settled [OF Cons.prems, of pe p e]
  have "outcome (step pe p e s) \<noteq> Pending" using Cons.prems by simp
  from Cons.IH [OF this] step_settled [OF Cons.prems, of pe p e]
  show ?case by simp
qed

lemma run_append: "run pe p (es @ es') s = run pe p es' (run pe p es s)"
  by (induction es arbitrary: s) simp_all

lemma step_counted: "counted s \<Longrightarrow> counted (step pe p e s)"
  by (cases e)
    (auto simp: counted_def exchange_defs Let_def
      split: sum.splits list.splits option.splits if_splits)

lemma run_counted: "counted s \<Longrightarrow> counted (run pe p es s)"
  by (induction es arbitrary: s) (simp_all add: step_counted)

lemma init_counted: "counted (init p)"
  by (simp add: counted_def init_def)

text \<open>Socket events alone arm the idle timeout and leave the promise pending.\<close>

lemma run_sockets:
  "run pe p (replicate n EvSocket) (init p) = (init p)\<lparr>on_timeout := 0 < n, socket := 0 < n\<rparr>"
proof (induction n)
  case 0
  show ?case by (simp add: init_def)
next
  case (Suc n)
  have "replicate (Suc n) EvSocket = replicate n EvSocket @ [EvSocket]"
    by (simp add: replicate_append_same)
  then show ?case
    using Suc by (simp add: run_append init_def onSocket_def del: replicate.simps)
qed

subsection \<open>One exchange: the first event after the socket\<close>

lemma first_event:
  "outcome (step pe p ev ((init p)\<lparr>on_timeout := 0 < n, socket := 0 < n\<rparr>)) = v \<Longrightarrow> v \<noteq> Pending \<Longrightarrow>
   request a p (replicate n EvSocket @ ev # post) = v" if "pe = parseError a"
  using that run_settled[of "step pe p ev ((init p)\<lparr>on_timeout := 0 < n, socket := 0 < n\<rparr>)" pe p post]
  by (simp add: request_def run_append run_sockets)

lemma first_error: "request a p (replicate n EvSocket @ EvError e # post) = Rejected e"
  by (rule first_event [OF refl]) (simp_all add: init_def exchange_defs Let_def)

lemma first_response_ok:
  "isSuccessfulResponse (statusCode r) \<Longrightarrow> decompressResponse r = Inr strm \<Longrightarrow>
   request a p (replicate n EvSocket @ EvResponse r # post) = Resolved strm"
  by (rule first_event [OF refl]) (simp_all add: init_def exchange_defs Let_def)

lemma first_response_encoding:
  "decompressResponse r = Inl e \<Longrightarrow>
   request a p (replicate n EvSocket @ EvResponse r # post) = Rejected e"
  by (rule first_event [OF refl]) (simp_all add: init_def exchange_defs Let_def)

lemma first_abort:
  "RequestParams.abort_signal p \<noteq> None \<Longrightarrow>
   request a p (replicate n EvSocket @ EvAbort # post) = Rejected (Error ''The request was aborted.'')"
  by (rule first_event [OF refl]) (simp_all add: init_def exchange_defs Let_def)

lemma first_timeout:
  "request a p (replicate (Suc n) EvSocket @ EvTimeout # post) = Rejected (Error ''Timeout error'')"
  by (rule first_event [OF refl]) (simp_all add: init_def exchange_defs Let_def)

lemma first_pipeline:
  "hasBody p \<Longrightarrow> request a p (replicate n EvSocket @ EvPipeline (Some e) # post) = Rejected e"
  by (rule first_event [OF refl]) (simp_all add: init_def exchange_defs Let_def)

lemma first_events:
  assumes "outcome (run (parseError a) p evs ((init p)\<lparr>on_timeout := 0 < n, socket := 0 < n\<rparr>)) = v"
    and "v \<noteq> Pending"
  shows "request a p (replicate n EvSocket @ evs @ post) = v"
  using assms run_settled [of "run (parseError a) p evs ((init p)\<lparr>on_timeout := 0 < n, socket := 0 < n\<rparr>)"
      "parseError a" p post]
  by (simp add: request_def run_append run_sockets)

lemma response_error_text:
  assumes "\<not> isSuccessfulResponse (statusCode r)" and "decompressResponse r = Inr strm"
  shows "request a p (replicate n EvSocket @ EvResponse r # EvText t # post) = Rejected (parseError a t)"
proof -
  have "request a p (replicate n EvSocket @ [EvResponse r, EvText t] @ post) = Rejected (parseError a t)"
    by (rule first_events) (simp_all add: assms init_def exchange_defs Let_def)
  then show ?thesis by simp
qed


subsection \<open>One exchange: abort\<close>

lemma step_abort_armed: "abort_armed p s \<Longrightarrow> abort_armed p (step pe p e s)"
  by (cases e)
    (auto simp: abort_armed_def exchange_defs Let_def
      split: sum.splits list.splits option.splits if_splits)

lemma run_abort_armed: "abort_armed p s \<Longrightarrow> abort_armed p (run pe p es s)"
  by (induction es arbitrary: s) (simp_all add: step_abort_armed)

lemma init_abort_armed: "abort_armed p (init p)"
  by (simp add: abort_armed_def init_def)

lemma step_swallowing:
  "swallowing s \<Longrightarrow> \<not> isErrorEvent e \<Longrightarrow>
   swallowing (step pe p e s) \<and> unhandled_errors (step pe p e s) = unhandled_errors s"
  by (cases e)
    (auto simp: swallowing_def exchange_defs Let_def
      split: sum.splits list.splits option.splits if_splits)

lemma run_swallowing:
  "swallowing s \<Longrightarrow> \<not> list_ex isErrorEvent es \<Longrightarrow>
   swallowing (run pe p es s) \<and> unhandled_errors (run pe p es s) = unhandled_errors s"
proof (induction es arbitrary: s)
  case Nil
  then show ?case by simp
next
  case (Cons e es)
  then have e: "\<not> isErrorEvent e" and es: "\<not> list_ex isErrorEvent es" by simp_all
  from step_swallowing [OF Cons.prems(1) e, of pe p] Cons.IH [OF _ es, of "step pe p e s"]
  show ?case by simp
qed

lemma abort_step:
  assumes "outcome s = Pending" and "on_abort s"
  shows "outcome (step pe p EvAbort s) = Rejected (Error ''The request was aborted.'')"
    and "swallowing (step pe p EvAbort s)"
    and "unhandled_errors (step pe p EvAbort s) = unhandled_errors s"
  using assms by (simp_all add: swallowing_def exchange_defs)

lemma swallowed_error:
  "swallowing s \<Longrightarrow> unhandled_errors (step pe p (EvError e) s) = unhandled_errors s"
  by (simp add: swallowing_def Let_def)


subsection \<open>One exchange: after any events that leave the promise pending\<close>

lemma step_listening: "listening s \<Longrightarrow> e \<noteq> EvClose \<Longrightarrow> listening (step pe p e s)"
  by (cases e)
    (auto simp: listening_def exchange_defs Let_def
      split: sum.splits list.splits option.splits if_splits)

lemma run_listening: "listening s \<Longrightarrow> EvClose \<notin> set es \<Longrightarrow> listening (run pe p es s)"
proof (induction es arbitrary: s)
  case Nil
  then show ?case by simp
next
  case (Cons e es)
  then have "e \<noteq> EvClose" and "EvClose \<notin> set es"
    by auto
  with Cons.IH [of "step pe p e s"] step_listening [OF Cons.prems(1), of e pe p]
  show ?case by simp
qed

lemma init_listening: "listening (init p)"
  by (simp add: listening_def init_def)

lemma step_socket: "socket (step pe p e s) = (socket s \<or> e = EvSocket)"
  by (cases e)
    (auto simp: exchange_defs Let_def split: sum.splits list.splits option.splits)

lemma run_socket: "socket (run pe p es s) = (socket s \<or> EvSocket \<in> set es)"
  by (induction es arbitrary: s) (auto simp: step_socket)



text \<open>The state after a prefix without close that leaves the promise pending.\<close>

lemma pending_prefix:
  assumes "request a p pre = Pending" and "EvClose \<notin> set pre"
  shows "outcome (run (parseError a) p pre (init p)) = Pending"
    and "on_response (run (parseError a) p pre (init p))"
    and "on_error (run (parseError a) p pre (init p))"
    and "on_timeout (run (parseError a) p pre (init p)) = (EvSocket \<in> set pre)"
    and "on_abort (run (parseError a) p pre (init p)) = (RequestParams.abort_signal p \<noteq> None)"
proof -
  let ?s = "run (parseError a) p pre (init p)"
  show p: "outcome ?s = Pending"
    using assms(1) by (simp add: request_def)
  have "listening ?s"
    by (rule run_listening [OF init_listening assms(2)])
  with p have l: "on_response ?s \<and> on_error ?s \<and> on_timeout ?s = socket ?s"
    by (simp add: listening_def)
  then show "on_response ?s" and "on_error ?s"
    by simp_all
  show "on_timeout ?s = (EvSocket \<in> set pre)"
    using l run_socket [of "parseError a" p pre "init p"] by (simp add: init_def)
  have "abort_armed p ?s"
    by (rule run_abort_armed [OF init_abort_armed])
  with p show "on_abort ?s = (RequestParams.abort_signal p \<noteq> None)"
    by (simp add: abort_armed_def)
qed

lemma decided:
  assumes "outcome (step (parseError a) p ev (run (parseError a) p pre (init p))) = v"
    and "v \<noteq> Pending"
  shows "request a p (pre @ ev # post) = v"
  using assms
    run_settled [of "step (parseError a) p ev (run (parseError a) p pre (init p))"
      "parseError a" p post]
  by (simp add: request_def run_append)


lemma step_response_ok:
  "outcome s = Pending \<Longrightarrow> on_response s \<Longrightarrow> isSuccessfulResponse (statusCode r) \<Longrightarrow>
   decompressResponse r = Inr strm \<Longrightarrow> outcome (step pe p (EvResponse r) s) = Resolved strm"
  by (simp add: exchange_defs)

lemma step_response_encoding:
  "outcome s = Pending \<Longrightarrow> on_response s \<Longrightarrow> decompressResponse r = Inl e \<Longrightarrow>
   outcome (step pe p (EvResponse r) s) = Rejected e"
  by (simp add: exchange_defs)

lemma step_response_awaits:
  "on_response s \<Longrightarrow> \<not> isSuccessfulResponse (statusCode r) \<Longrightarrow>
   decompressResponse r = Inr strm \<Longrightarrow>
   step pe p (EvResponse r) s = s\<lparr>awaiting_text := awaiting_text s @ [strm]\<rparr>"
  by (simp add: exchange_defs)






subsection \<open>One exchange: the request's flag for decompression\<close>

lemma step_flag: "step pe (p\<lparr>RequestParams.decompress_response := flag\<rparr>) e s = step pe p e s"
  by (cases e) (simp_all add: hasBody_def)

lemma run_flag: "run pe (p\<lparr>RequestParams.decompress_response := flag\<rparr>) es s = run pe p es s"
  by (induction es arbitrary: s) (simp_all add: step_flag)

lemma init_flag: "init (p\<lparr>RequestParams.decompress_response := flag\<rparr>) = init p"
  by (simp add: init_def)

lemma request_flag: "request a (p\<lparr>RequestParams.decompress_response := flag\<rparr>) es = request a p es"
  by (simp add: request_def run_flag init_def)

subsection \<open>Evaluation on the example values\<close>

lemmas example_defs =
  example_adapter_def example_exec_params_def example_response_def

lemmas request_eval =
  request_def init_def exchange_defs Let_def decompressResponse_def isSuccessfulResponse_def
  hasBody_def

lemma example_query_request:
  "RequestParams.abort_signal (query_request example_adapter (example_exec_params None)) = Some 0"
  "hasBody (query_request example_adapter (example_exec_params None))"
  "RequestParams.abort_signal (exec_request example_adapter (example_exec_params None)) = Some 0"
  "hasBody (exec_request example_adapter (example_exec_params None))"
  "\<not> RequestParams.decompress_response (exec_request example_adapter (example_exec_params None))"
  by (simp_all add: query_request_def exec_request_def example_exec_params_def hasBody_def Let_def)

lemma example_prefix:
  assumes "RequestParams.abort_signal p = Some 0" and "hasBody p"
  shows "request a p [EvSocket, EvPipeline None] = Pending"
    and "awaiting_text (run (parseError a) p [EvSocket, EvPipeline None] (init p)) = []"
  using assms by (simp_all add: request_def init_def exchange_defs)

lemma example_responses:
  "isSuccessfulResponse (statusCode (example_response 200 enc))"
  "\<not> isSuccessfulResponse (statusCode (example_response 500 enc))"
  "content_encoding (example_response n enc) = enc"
  "message_body (example_response n enc) = ''1''"
  "decompressResponse (example_response n None) = Inr (Raw ''1'')"
  "decompressResponse (example_response n (Some ''gzip'')) = Inr (Gunzip ''1'')"
  "decompressResponse (example_response n (Some ''br'')) = Inl (Error ''Unexpected encoding: br'')"
  by (simp_all add: example_response_def isSuccessfulResponse_def decompressResponse_def)

lemma ok_response:
  "request a p [EvSocket, EvResponse (example_response 200 None)] = Resolved (Raw ''1'')"
proof -
  have "request a p (replicate 1 EvSocket @ EvResponse (example_response 200 None) # []) =
      Resolved (Raw ''1'')"
    by (rule first_response_ok)
      (simp_all add: example_response_def isSuccessfulResponse_def decompressResponse_def)
  then show ?thesis by simp
qed

lemma map_promise_Resolved:
  "map_promise f p = Resolved r \<longleftrightarrow> (\<exists>s. p = Resolved s \<and> r = f s)"
  by (cases p) auto

subsection \<open>The promise of an exchange\<close>



subsection \<open>Decompression of the response\<close>

text \<open>
  C4 (as amended). After any events that leave the promise pending, none of them \<open>close\<close>,
  the response is piped through gunzip whenever it declares \<open>content-encoding: gzip\<close>: the
  promise resolves with the gunzipped stream when the status is from 200 to 299, and with
  another status the body whose text is awaited is the gunzipped one. A response that declares
  another encoding rejects the promise with \<open>Unexpected encoding\<close>, whatever its status. The
  body of a response without the header is passed on as it is: it resolves the promise when
  the status is from 200 to 299 and is the body whose text is awaited otherwise. The flag
  \<open>decompress_response\<close> of the request has no effect on the exchange.
\<close>

theorem decompression_follows_content_encoding:
  assumes pre: "request a p pre = Pending" and noclose: "EvClose \<notin> set pre"
  shows "(content_encoding r = Some ''gzip'' \<and> isSuccessfulResponse (statusCode r) \<longrightarrow>
      request a p (pre @ EvResponse r # post) = Resolved (Gunzip (message_body r)))
   \<and> (content_encoding r = Some ''gzip'' \<and> \<not> isSuccessfulResponse (statusCode r) \<longrightarrow>
      awaiting_text (run (parseError a) p (pre @ [EvResponse r]) (init p)) =
        awaiting_text (run (parseError a) p pre (init p)) @ [Gunzip (message_body r)])
   \<and> (content_encoding r = Some enc \<and> enc \<noteq> ''gzip'' \<longrightarrow>
      request a p (pre @ EvResponse r # post) =
        Rejected (Error (''Unexpected encoding: '' @ enc)))
   \<and> (content_encoding r = None \<and> isSuccessfulResponse (statusCode r) \<longrightarrow>
      request a p (pre @ EvResponse r # post) = Resolved (Raw (message_body r)))
   \<and> (content_encoding r = None \<and> \<not> isSuccessfulResponse (statusCode r) \<longrightarrow>
      awaiting_text (run (parseError a) p (pre @ [EvResponse r]) (init p)) =
        awaiting_text (run (parseError a) p pre (init p)) @ [Raw (message_body r)])
   \<and> (content_encoding r = None \<longrightarrow> decompressResponse r = Inr (Raw (message_body r)))
   \<and> run (parseError a) (p\<lparr>RequestParams.decompress_response := flag\<rparr>) es
        (init (p\<lparr>RequestParams.decompress_response := flag\<rparr>)) =
      run (parseError a) p es (init p)
   \<and> request a (p\<lparr>RequestParams.decompress_response := flag\<rparr>) es = request a p es"
proof -
  let ?pe = "parseError a"
  let ?s = "run ?pe p pre (init p)"
  note st = pending_prefix [OF pre noclose]
  have gz: "decompressResponse r = Inr (Gunzip (message_body r))"
    if "content_encoding r = Some ''gzip''"
    using that by (simp add: decompressResponse_def)
  have other: "decompressResponse r = Inl (Error (''Unexpected encoding: '' @ enc))"
    if "content_encoding r = Some enc" and "enc \<noteq> ''gzip''"
    using that by (simp add: decompressResponse_def)
  have none: "decompressResponse r = Inr (Raw (message_body r))"
    if "content_encoding r = None"
    using that by (simp add: decompressResponse_def)
  have resolved: "request a p (pre @ EvResponse r # post) = Resolved strm"
    if "isSuccessfulResponse (statusCode r)" and "decompressResponse r = Inr strm" for strm
    by (rule decided [OF step_response_ok [OF st(1) st(2) that]]) simp
  have rejected: "request a p (pre @ EvResponse r # post) = Rejected e"
    if "decompressResponse r = Inl e" for e
    by (rule decided [OF step_response_encoding [OF st(1) st(2) that]]) simp
  have awaited: "awaiting_text (run ?pe p (pre @ [EvResponse r]) (init p)) =
      awaiting_text ?s @ [strm]"
    if "\<not> isSuccessfulResponse (statusCode r)" and "decompressResponse r = Inr strm" for strm
    using step_response_awaits [OF st(2) that, of ?pe p] by (simp add: run_append)
  show ?thesis
    using gz other none resolved rejected awaited
    by (simp add: request_flag run_flag init_flag)
qed

theorem decompression_follows_content_encoding_witness:
  "request example_adapter (exec_request example_adapter (example_exec_params None))
     [EvSocket, EvPipeline None] = Pending
   \<and> EvClose \<notin> set [EvSocket, EvPipeline None]
   \<and> content_encoding (example_response 200 (Some ''gzip'')) = Some ''gzip''
   \<and> isSuccessfulResponse (statusCode (example_response 200 (Some ''gzip'')))
   \<and> request example_adapter (exec_request example_adapter (example_exec_params None))
        ([EvSocket, EvPipeline None] @ EvResponse (example_response 200 (Some ''gzip'')) # [EvClose])
      = Resolved (Gunzip ''1'')
   \<and> content_encoding (example_response 500 (Some ''gzip'')) = Some ''gzip''
   \<and> \<not> isSuccessfulResponse (statusCode (example_response 500 (Some ''gzip'')))
   \<and> awaiting_text (run (parseError example_adapter)
          (exec_request example_adapter (example_exec_params None))
          ([EvSocket, EvPipeline None] @ [EvResponse (example_response 500 (Some ''gzip''))])
          (init (exec_request example_adapter (example_exec_params None)))) = [Gunzip ''1'']
   \<and> content_encoding (example_response 200 (Some ''br'')) = Some ''br'' \<and> ''br'' \<noteq> ''gzip''
   \<and> request example_adapter (exec_request example_adapter (example_exec_params None))
        ([EvSocket, EvPipeline None] @ EvResponse (example_response 200 (Some ''br'')) # [EvClose])
      = Rejected (Error ''Unexpected encoding: br'')
   \<and> content_encoding (example_response 200 None) = None
   \<and> request example_adapter (exec_request example_adapter (example_exec_params None))
        ([EvSocket, EvPipeline None] @ EvResponse (example_response 200 None) # [EvClose])
      = Resolved (Raw ''1'')
   \<and> content_encoding (example_response 500 None) = None
   \<and> \<not> isSuccessfulResponse (statusCode (example_response 500 None))
   \<and> awaiting_text (run (parseError example_adapter)
          (exec_request example_adapter (example_exec_params None))
          ([EvSocket, EvPipeline None] @ [EvResponse (example_response 500 None)])
          (init (exec_request example_adapter (example_exec_params None)))) = [Raw ''1'']
   \<and> decompressResponse (example_response 200 None) = Inr (Raw ''1'')"
proof -
  let ?a = example_adapter
  let ?p = "exec_request example_adapter (example_exec_params None)"
  let ?pre = "[EvSocket, EvPipeline None]"
  note p = example_query_request(3,4)
  have h1: "request ?a ?p ?pre = Pending"
    by (rule example_prefix [OF p])
  have h2: "EvClose \<notin> set ?pre"
    by simp
  note aw = example_prefix(2) [OF p, of ?a]
  note inst = decompression_follows_content_encoding [OF h1 h2, where post = "[EvClose]"
      and enc = "''br''" and flag = True and es = "[]"]
  show ?thesis
    using h1 aw
      inst [of "example_response 200 (Some ''gzip'')"]
      inst [of "example_response 500 (Some ''gzip'')"]
      inst [of "example_response 200 (Some ''br'')"]
      inst [of "example_response 200 None"]
      inst [of "example_response 500 None"]
    by (simp add: example_responses)
qed

text \<open>
  C4 (counterexample). \<open>exec\<close> never asks for decompression; a gzip response to it, after
  the socket and the end of the pipeline, is piped through gunzip all the same.
\<close>

theorem decompression_not_requested_counterexample:
  "\<not> RequestParams.decompress_response (exec_request example_adapter (example_exec_params None))
   \<and> request example_adapter (exec_request example_adapter (example_exec_params None))
        [EvSocket, EvPipeline None, EvResponse (example_response 200 (Some ''gzip'')), EvClose]
      = Resolved (Gunzip ''1'')"
  using example_query_request(3,4,5)
  by (simp add: request_def init_def exchange_defs example_responses)

subsection \<open>Abort\<close>

text \<open>
  C8. When the abort signal fires while the promise is pending, the promise is rejected with
  \<open>The request was aborted.\<close>, this is its only settlement, and no event after it changes
  it; the next \<open>error\<close> event of the request is taken by the empty one-time listener, so it is
  handled and reported nowhere.
\<close>

theorem abort_settles_and_swallows_error:
  assumes sig: "RequestParams.abort_signal p \<noteq> None"
    and pending: "request a p pre = Pending"
    and mid: "\<not> list_ex isErrorEvent mid"
  shows "request a p (pre @ EvAbort # post) = Rejected (Error ''The request was aborted.'')
    \<and> settlements (run (parseError a) p (pre @ EvAbort # post) (init p)) = 1
    \<and> unhandled_errors (run (parseError a) p (pre @ EvAbort # mid @ [EvError e]) (init p)) =
        unhandled_errors (run (parseError a) p pre (init p))"
proof -
  let ?pe = "parseError a"
  let ?s = "run ?pe p pre (init p)"
  let ?aborted = "Rejected (Error ''The request was aborted.'')"
  have p: "outcome ?s = Pending"
    using pending by (simp add: request_def)
  have "abort_armed p ?s"
    by (rule run_abort_armed [OF init_abort_armed])
  with p sig have armed: "on_abort ?s"
    by (simp add: abort_armed_def)
  note ab = abort_step [OF p armed, of ?pe p]
  have "outcome (run ?pe p post (step ?pe p EvAbort ?s)) = ?aborted"
    using run_settled [of "step ?pe p EvAbort ?s" ?pe p post] ab(1) by simp
  then have 1: "request a p (pre @ EvAbort # post) = ?aborted"
    by (simp add: request_def run_append)
  have 2: "settlements (run ?pe p (pre @ EvAbort # post) (init p)) = 1"
    using run_counted [OF init_counted, of ?pe p "pre @ EvAbort # post"] 1
    by (simp add: counted_def request_def)
  from run_swallowing [OF ab(2) mid, of ?pe p]
  have sw: "swallowing (run ?pe p mid (step ?pe p EvAbort ?s))"
    and un: "unhandled_errors (run ?pe p mid (step ?pe p EvAbort ?s)) =
      unhandled_errors (step ?pe p EvAbort ?s)"
    by simp_all
  have "unhandled_errors (run ?pe p (pre @ EvAbort # mid @ [EvError e]) (init p)) =
        unhandled_errors (step ?pe p (EvError e) (run ?pe p mid (step ?pe p EvAbort ?s)))"
    by (simp add: run_append)
  also have "\<dots> = unhandled_errors ?s"
    using swallowed_error [OF sw, of ?pe p e] un ab(3) by simp
  finally show ?thesis
    using 1 2 by simp
qed

theorem abort_settles_and_swallows_error_witness:
  "RequestParams.abort_signal (query_request example_adapter (example_exec_params None)) \<noteq> None
   \<and> request example_adapter (query_request example_adapter (example_exec_params None)) [EvSocket]
       = Pending
   \<and> \<not> list_ex isErrorEvent [EvTimeout]
   \<and> request example_adapter (query_request example_adapter (example_exec_params None))
       ([EvSocket] @ EvAbort # [EvError (Error ''aborted''), EvClose])
       = Rejected (Error ''The request was aborted.'')
   \<and> unhandled_errors
        (run (parseError example_adapter)
          (query_request example_adapter (example_exec_params None))
          ([EvSocket] @ EvAbort # [EvTimeout] @ [EvError (Error ''aborted'')])
          (init (query_request example_adapter (example_exec_params None)))) = []"
proof -
  let ?p = "query_request example_adapter (example_exec_params None)"
  have sig: "RequestParams.abort_signal ?p \<noteq> None"
    by (simp add: query_request_def example_defs Let_def)
  have pending: "request example_adapter ?p [EvSocket] = Pending"
    by (simp add: request_eval)
  have mid: "\<not> list_ex isErrorEvent [EvTimeout]"
    by simp
  have un: "unhandled_errors (run (parseError example_adapter) ?p [EvSocket] (init ?p)) = []"
    by (simp add: request_eval)
  show ?thesis
    using sig pending mid un
      abort_settles_and_swallows_error [OF sig pending mid,
        of "[EvError (Error ''aborted''), EvClose]" "Error ''aborted''"]
    by simp
qed

subsection \<open>Ping\<close>

text \<open>
  C2 (the code at the failing inputs). \<open>ping\<close> of the adapter awaits \<open>request\<close> without
  catching: when the exchange fails with an \<open>error\<close> event, an idle timeout or a response with
  status 500, the promise of \<open>ping\<close> is rejected with that failure; and \<open>ping\<close> of the client
  returns the promise of the connection's \<open>ping\<close>, rejected when that one is.
\<close>

theorem ping_rejects_on_failure:
  "adapter_ping a (replicate n EvSocket @ EvError err # post) = Rejected err
   \<and> adapter_ping a (replicate (Suc n) EvSocket @ EvTimeout # post) =
       Rejected (Error ''Timeout error'')
   \<and> adapter_ping a
       (replicate n EvSocket @ EvResponse (example_response 500 None) # EvText t # post) =
       Rejected (parseError a t)
   \<and> fst (client_ping (c\<lparr>connection := (connection c)\<lparr>conn_ping := Inl err\<rparr>\<rparr>) log) = Inl err"
proof -
  have r500: "\<not> isSuccessfulResponse (statusCode (example_response 500 None))"
    "decompressResponse (example_response 500 None) = Inr (Raw ''1'')"
    by (simp_all add: example_response_def isSuccessfulResponse_def decompressResponse_def)
  show ?thesis
    unfolding adapter_ping_def
    by (simp add: first_error first_timeout response_error_text [OF r500] client_ping_def
        del: replicate.simps)
qed

text \<open>On a response with a status from 200 to 299 \<open>ping\<close> resolves to \<open>true\<close>.\<close>

lemma ping_true_on_success:
  "isSuccessfulResponse (statusCode r) \<Longrightarrow> content_encoding r = None \<Longrightarrow>
   adapter_ping a (replicate n EvSocket @ EvResponse r # post) = Resolved True"
  unfolding adapter_ping_def
  by (subst first_response_ok [where strm = "Raw (message_body r)"])
    (simp_all add: decompressResponse_def)

subsection \<open>Query identifiers\<close>

text \<open>
  C10. \<open>getQueryId\<close> returns the query id of the caller when it is a non-empty string, and
  the generated identifier when it is absent or the empty string; as the generated identifier
  is not empty, the result equals a supplied query id exactly when that one is not empty.
  The result of \<open>query\<close>, \<open>exec\<close> and \<open>insert\<close> carries this identifier.
\<close>

theorem getQueryId_supplied_or_generated:
  "(\<forall>q. BaseQueryParams.query_id params = Some q \<and> q \<noteq> [] \<longrightarrow> getQueryId a params = q)
   \<and> (BaseQueryParams.query_id params = None \<or> BaseQueryParams.query_id params = Some [] \<longrightarrow>
        getQueryId a params = uuid_v4 a)
   \<and> (\<forall>q. BaseQueryParams.query_id params = Some q \<and> uuid_v4 a \<noteq> [] \<longrightarrow>
        (getQueryId a params = q \<longleftrightarrow> q \<noteq> []))
   \<and> (\<forall>r. adapter_query a params es = Resolved r \<longrightarrow>
        ConnBaseResult.query_id r = getQueryId a params)
   \<and> (\<forall>r. adapter_exec a params es = Resolved r \<longrightarrow>
        ConnBaseResult.query_id r = getQueryId a params)
   \<and> (\<forall>r. adapter_insert a iparams es = Resolved r \<longrightarrow>
        ConnBaseResult.query_id r = getQueryId a iparams)"
  by (auto simp: getQueryId_def adapter_query_def adapter_exec_def adapter_insert_def
      map_promise_Resolved split: option.splits)

theorem getQueryId_supplied_or_generated_witness:
  "BaseQueryParams.query_id (example_exec_params (Some ''my-id'')) = Some ''my-id''
   \<and> getQueryId example_adapter (example_exec_params (Some ''my-id'')) = ''my-id''
   \<and> BaseQueryParams.query_id (example_exec_params (Some [])) = Some []
   \<and> uuid_v4 example_adapter \<noteq> []
   \<and> getQueryId example_adapter (example_exec_params (Some [])) = uuid_v4 example_adapter
   \<and> getQueryId example_adapter (example_exec_params (Some [])) \<noteq> []
   \<and> adapter_query example_adapter (example_exec_params (Some ''my-id''))
        [EvSocket, EvResponse (example_response 200 None)]
      = Resolved \<lparr> query_id = ''my-id'', summary = None, stream = Raw ''1'' \<rparr>
   \<and> adapter_exec example_adapter (example_exec_params (Some []))
        [EvSocket, EvResponse (example_response 200 None)]
      = Resolved \<lparr> query_id = uuid_v4 example_adapter, summary = None, stream = Raw ''1'' \<rparr>
   \<and> adapter_insert example_adapter (example_conn_insert_params (Some []))
        [EvSocket, EvResponse (example_response 200 None)]
      = Resolved \<lparr> query_id = uuid_v4 example_adapter, summary = None \<rparr>"
proof -
  let ?es = "[EvSocket, EvResponse (example_response 200 None)]"
  let ?p1 = "example_exec_params (Some ''my-id'')"
  let ?p2 = "example_exec_params (Some [])"
  let ?p3 = "example_conn_insert_params (Some [])"
  have q: "adapter_query example_adapter ?p1 ?es
      = Resolved \<lparr> query_id = getQueryId example_adapter ?p1, summary = None, stream = Raw ''1'' \<rparr>"
    by (simp only: adapter_query_def ok_response promise.map)
  have e: "adapter_exec example_adapter ?p2 ?es
      = Resolved \<lparr> query_id = getQueryId example_adapter ?p2, summary = None, stream = Raw ''1'' \<rparr>"
    by (simp only: adapter_exec_def ok_response promise.map)
  have i: "adapter_insert example_adapter ?p3 ?es
      = Resolved \<lparr> query_id = getQueryId example_adapter ?p3, summary = None \<rparr>"
    by (simp only: adapter_insert_def ok_response promise.map)
  have ids: "BaseQueryParams.query_id (example_exec_params qid) = qid"
    "BaseQueryParams.query_id (example_conn_insert_params qid) = qid" for qid
    by (simp_all add: example_exec_params_def example_conn_insert_params_def)
  have u: "uuid_v4 example_adapter \<noteq> []"
    by (simp add: example_adapter_def)
  have g1: "getQueryId example_adapter ?p1 = ''my-id''"
    using getQueryId_supplied_or_generated [of ?p1 example_adapter ?es ?p3] ids by simp
  have g2: "getQueryId example_adapter ?p2 = uuid_v4 example_adapter"
    using getQueryId_supplied_or_generated [of ?p2 example_adapter ?es ?p3] ids by simp
  have g3: "getQueryId example_adapter ?p3 = uuid_v4 example_adapter"
    by (simp add: getQueryId_def ids)
  show ?thesis
    by (simp only: q e i ids u g1 g2 g3 simp_thms)
qed

end
